theory Spec2Isabelle
  imports Main "HOL-Library.Multiset"
begin

section \<open>Raja-Mantri-Chor-Sipahi game backend (src/main.py)\<close>

subsection \<open>Errors\<close>

text \<open>
  Every handler fails by raising \<open>HTTPException(status, detail)\<close>. The only other
  exception a handler body can raise is the \<open>KeyError\<close> of the dictionary lookup
  \<open>POINTS[p.role]\<close>; it carries the key that was looked up. A route whose handler
  returns a value that its \<open>response_model\<close> does not accept fails after the handler,
  with the framework's response validation error (a server error, not an
  \<open>HTTPException\<close> of the handlers).
\<close>

datatype error = HTTPException nat string | KeyError "string option" | ResponseValidationError

text \<open>The error kinds of the interface: 404 is NotFound, 400 InvalidState, 403 Forbidden.\<close>

definition NotFound :: "string \<Rightarrow> error" where
  "NotFound detail = HTTPException 404 detail"

definition InvalidState :: "string \<Rightarrow> error" where
  "InvalidState detail = HTTPException 400 detail"

definition Forbidden :: "string \<Rightarrow> error" where
  "Forbidden detail = HTTPException 403 detail"

subsection \<open>Data model: class Player, class Room, the global rooms\<close>

text \<open>
  \<open>Player.role\<close> is \<open>Optional[str]\<close>, \<open>None\<close> until a round assigns one.
  \<open>Player.score\<close> is an \<open>int\<close> that starts at 0 and is only ever added to, so the
  \<open>p.score is None\<close> guards of the handlers never fire and the field is an \<open>int\<close> here.
\<close>

record player =
  id_player :: string
  name_player :: string
  role :: "string option"
  score :: int

record room =
  id_room :: string
  name_room :: string
  players :: "player list"
  waitlist :: "player list"
  roles_assigned :: bool
  mantri_id :: "string option"
  chor_id :: "string option"
  guess_submitted :: bool
  guessed_player_id :: "string option"
  round_number :: int

type_synonym rooms = "string \<rightharpoonup> room"

text \<open>\<open>Player.__init__\<close> and \<open>Room.__init__\<close>; the \<open>uuid4()\<close> each one draws is an argument.\<close>

definition Player_init :: "string \<Rightarrow> string \<Rightarrow> player" where
  "Player_init uuid name =
     \<lparr>id_player = uuid, name_player = name, role = None, score = 0\<rparr>"

definition Room_init :: "string \<Rightarrow> string \<Rightarrow> player \<Rightarrow> room" where
  "Room_init uuid name hostPlayer =
     \<lparr>id_room = uuid, name_room = name, players = [hostPlayer], waitlist = [],
      roles_assigned = False, mantri_id = None, chor_id = None,
      guess_submitted = False, guessed_player_id = None, round_number = 0\<rparr>"

definition POINTS :: "string \<rightharpoonup> int" where
  "POINTS = map_of [(''Raja'', 1000), (''Mantri'', 800), (''Sipahi'', 500), (''Chor'', 0)]"

text \<open>\<open>POINTS[k]\<close> for a key \<open>k\<close> that may be \<open>None\<close>: a missing key raises.\<close>

definition POINTS_getitem :: "string option \<Rightarrow> error + int" where
  "POINTS_getitem k =
     (case k of
        None \<Rightarrow> Inl (KeyError None)
      | Some r \<Rightarrow> (case POINTS r of None \<Rightarrow> Inl (KeyError (Some r)) | Some v \<Rightarrow> Inr v))"

text \<open>
  Every handler returns a dictionary, which the route then validates against its
  \<open>response_model\<close>. For \<open>view_role\<close> this validation is part of the model below: the
  handler can return \<open>None\<close> where \<open>RoleResponse\<close> requires a \<open>str\<close>, and no version
  of the validation accepts that. The records of the other routes are the dictionaries
  the handlers return, named after the \<open>response_model\<close>, with the fields typed as the
  values the handler stores (a score is an \<open>int\<close>, \<open>room.chor_id\<close> an \<open>Optional[str]\<close>);
  whether an \<open>int\<close> is accepted where the response model says \<open>Dict[str, str]\<close> depends
  on the version of the validation library, which the repository does not fix.

  The \<open>{"id": p.id, "name": p.name}\<close> dictionaries of the responses are pairs.
\<close>

type_synonym id_name = "string \<times> string"

definition id_name_of :: "player \<Rightarrow> id_name" where
  "id_name_of p = (id_player p, name_player p)"

subsection \<open>create\_room\<close>

record CreateRoomResponse =
  roomId_cr :: string
  playerId_cr :: string
  message_cr :: string

text \<open>The two \<open>uuid4()\<close> draws, in order: the host's id, then the room's.\<close>

definition create_room :: "rooms \<Rightarrow> string \<Rightarrow> string \<Rightarrow> string \<Rightarrow> string
    \<Rightarrow> rooms \<times> CreateRoomResponse" where
  "create_room rooms uuid_host uuid_room roomName playerName =
     (let host = Player_init uuid_host playerName;
          room = Room_init uuid_room roomName host
      in (rooms(id_room room \<mapsto> room),
          \<lparr>roomId_cr = id_room room, playerId_cr = id_player host,
           message_cr = ''Room created successfully''\<rparr>))"

subsection \<open>join\_multiple\_players\<close>

record JoinMultipleResponse =
  roomId_jm :: string
  added_jm :: "id_name list"
  waitlisted_jm :: "id_name list"
  message_jm :: string

text \<open>
  The loop over \<open>data.playerNames\<close>. \<open>uuid4 k\<close> is the \<open>k\<close>-th identifier drawn; the
  loop state is the room with the two response lists.
\<close>

fun join_loop :: "(nat \<Rightarrow> string) \<Rightarrow> nat \<Rightarrow> string list
    \<Rightarrow> room \<times> id_name list \<times> id_name list \<Rightarrow> room \<times> id_name list \<times> id_name list" where
  "join_loop uuid4 k [] st = st"
| "join_loop uuid4 k (name # names) (room, added, waitlisted) =
     (let p = Player_init (uuid4 k) name
      in if length (players room) < 4
         then join_loop uuid4 (Suc k) names
                (room\<lparr>players := players room @ [p]\<rparr>, added @ [id_name_of p], waitlisted)
         else join_loop uuid4 (Suc k) names
                (room\<lparr>waitlist := waitlist room @ [p]\<rparr>, added, waitlisted @ [id_name_of p]))"

definition join_multiple_players :: "rooms \<Rightarrow> (nat \<Rightarrow> string) \<Rightarrow> string \<Rightarrow> string list
    \<Rightarrow> rooms \<times> (error + JoinMultipleResponse)" where
  "join_multiple_players rooms uuid4 roomId playerNames =
     (case rooms roomId of
        None \<Rightarrow> (rooms, Inl (NotFound ''Room not found''))
      | Some room \<Rightarrow>
          (case join_loop uuid4 0 playerNames (room, [], []) of
             (room', added, waitlisted) \<Rightarrow>
               (rooms(roomId \<mapsto> room'),
                Inr \<lparr>roomId_jm = id_room room', added_jm = added, waitlisted_jm = waitlisted,
                     message_jm = ''Players processed successfully''\<rparr>)))"

subsection \<open>get\_players\<close>

record PlayerListResponse =
  roomId_pl :: string
  players_pl :: "id_name list"
  waitlistCount_pl :: nat

definition get_players :: "rooms \<Rightarrow> string \<Rightarrow> error + PlayerListResponse" where
  "get_players rooms roomId =
     (case rooms roomId of
        None \<Rightarrow> Inl (NotFound ''Room not found'')
      | Some room \<Rightarrow>
          Inr \<lparr>roomId_pl = roomId, players_pl = map id_name_of (players room),
               waitlistCount_pl = length (waitlist room)\<rparr>)"

subsection \<open>assign\_roles\<close>

definition ROLES :: "string list" where
  "ROLES = [''Raja'', ''Mantri'', ''Chor'', ''Sipahi'']"

text \<open>
  The loop \<open>for p, role in zip(room.players, ROLES)\<close>. It writes \<open>p.role\<close> and, for the
  two named roles, \<open>room.mantri_id\<close> and \<open>room.chor_id\<close>; \<open>zip\<close> stops at the shorter list
  and players beyond it are not touched.
\<close>

fun assign_loop :: "player list \<Rightarrow> string list \<Rightarrow> string option \<times> string option
    \<Rightarrow> player list \<times> string option \<times> string option" where
  "assign_loop (p # ps) (r # rs) (m, c) =
     (let m' = (if r = ''Mantri'' then Some (id_player p) else m);
          c' = (if r = ''Chor'' then Some (id_player p) else c)
      in case assign_loop ps rs (m', c') of
           (ps', mc) \<Rightarrow> (p\<lparr>role := Some r\<rparr> # ps', mc))"
| "assign_loop ps rs mc = (ps, mc)"

text \<open>Decimal rendering of the round number in the response's f-string.\<close>

definition digit_char :: "nat \<Rightarrow> char" where
  "digit_char d = ''0123456789'' ! d"

function str_nat :: "nat \<Rightarrow> string" where
  "str_nat n = (if n < 10 then [digit_char n] else str_nat (n div 10) @ [digit_char (n mod 10)])"
  by pat_completeness auto
termination
  by (relation "measure (\<lambda>n. n)") auto

definition str_int :: "int \<Rightarrow> string" where
  "str_int i = (if i < 0 then CHR ''-'' # str_nat (nat (- i)) else str_nat (nat i))"

record AssignRolesResponse =
  message_ar :: string

text \<open>
  \<open>shuffled\<close> is the list \<open>ROLES\<close> as \<open>random.shuffle\<close> leaves it: the shuffle reorders
  the list in place, so it is some list with the same elements.
\<close>

definition assign_roles :: "rooms \<Rightarrow> string list \<Rightarrow> string
    \<Rightarrow> rooms \<times> (error + AssignRolesResponse)" where
  "assign_roles rooms shuffled roomId =
     (case rooms roomId of
        None \<Rightarrow> (rooms, Inl (NotFound ''Room not found''))
      | Some room \<Rightarrow>
          if length (players room) \<noteq> 4
          then (rooms, Inl (InvalidState ''Exactly 4 players are required to start the game''))
          else (case assign_loop (players room) shuffled (mantri_id room, chor_id room) of
                  (ps', m', c') \<Rightarrow>
                    (let room' = room\<lparr>players := ps', mantri_id := m', chor_id := c',
                                      roles_assigned := True, guess_submitted := False,
                                      round_number := round_number room + 1\<rparr>
                     in (rooms(roomId \<mapsto> room'),
                         Inr \<lparr>message_ar =
                                ''Roles assigned for round '' @ str_int (round_number room')\<rparr>))))"

subsection \<open>view\_role\<close>

text \<open>
  The class \<open>RoleResponse\<close>: both fields are declared \<open>str\<close>. It is the
  \<open>response_model\<close> of the route.
\<close>

record RoleResponse =
  playerId_rr :: string
  role_rr :: string

text \<open>
  The dictionary \<open>{"playerId": p.id, "role": p.role}\<close> the handler body returns: its
  \<open>role\<close> entry is the player's field, an \<open>Optional[str]\<close>.
\<close>

record role_dict =
  playerId_rd :: string
  role_rd :: "string option"

text \<open>The search loop of the handler body: the first player with the given id.\<close>

fun view_role_loop :: "player list \<Rightarrow> string \<Rightarrow> error + role_dict" where
  "view_role_loop [] playerId = Inl (NotFound ''Player not found'')"
| "view_role_loop (p # ps) playerId =
     (if id_player p = playerId
      then Inr \<lparr>playerId_rd = id_player p, role_rd = role p\<rparr>
      else view_role_loop ps playerId)"

definition view_role_body :: "rooms \<Rightarrow> string \<Rightarrow> string \<Rightarrow> error + role_dict" where
  "view_role_body rooms roomId playerId =
     (case rooms roomId of
        None \<Rightarrow> Inl (NotFound ''Room not found'')
      | Some room \<Rightarrow> view_role_loop (players room) playerId)"

text \<open>
  Validation of the returned dictionary against \<open>RoleResponse\<close>: \<open>playerId\<close> is a
  \<open>str\<close>; a \<open>role\<close> that is \<open>None\<close> is not a \<open>str\<close> and is rejected.
\<close>

definition RoleResponse_validate :: "role_dict \<Rightarrow> error + RoleResponse" where
  "RoleResponse_validate d =
     (case role_rd d of
        None \<Rightarrow> Inl ResponseValidationError
      | Some r \<Rightarrow> Inr \<lparr>playerId_rr = playerId_rd d, role_rr = r\<rparr>)"

text \<open>
  The route \<open>@app.get("/role/me/{roomId}/{playerId}", response_model=RoleResponse)\<close>:
  the handler body, then the validation of what it returned.
\<close>

definition view_role :: "rooms \<Rightarrow> string \<Rightarrow> string \<Rightarrow> error + RoleResponse" where
  "view_role rooms roomId playerId =
     (case view_role_body rooms roomId playerId of
        Inl e \<Rightarrow> Inl e
      | Inr d \<Rightarrow> RoleResponse_validate d)"

subsection \<open>submit\_guess\<close>

record GuessResponse =
  result_gr :: string
  actualChorId_gr :: "string option"

text \<open>
  One iteration of the scoring loop: the new score of \<open>p\<close>, or the \<open>KeyError\<close> of the
  lookup in \<open>POINTS\<close>.
\<close>

definition score_step :: "bool \<Rightarrow> player \<Rightarrow> error + player" where
  "score_step correct_guess p =
     (if correct_guess
      then (case POINTS_getitem (role p) of
              Inl e \<Rightarrow> Inl e
            | Inr v \<Rightarrow> Inr (p\<lparr>score := score p + v\<rparr>))
      else if role p = Some ''Chor''
      then (case POINTS_getitem (Some ''Mantri'') of
              Inl e \<Rightarrow> Inl e
            | Inr v \<Rightarrow> Inr (p\<lparr>score := score p + v\<rparr>))
      else if role p = Some ''Mantri''
      then Inr (p\<lparr>score := score p + 0\<rparr>)
      else (case POINTS_getitem (role p) of
              Inl e \<Rightarrow> Inl e
            | Inr v \<Rightarrow> Inr (p\<lparr>score := score p + v\<rparr>)))"

text \<open>
  The loop \<open>for p in room.players\<close>. The players are updated in place, so an exception
  at one player leaves those before it updated and the rest as they were.
\<close>

fun score_loop :: "bool \<Rightarrow> player list \<Rightarrow> player list \<times> error option" where
  "score_loop correct_guess [] = ([], None)"
| "score_loop correct_guess (p # ps) =
     (case score_step correct_guess p of
        Inl e \<Rightarrow> (p # ps, Some e)
      | Inr p' \<Rightarrow> (case score_loop correct_guess ps of (ps', r) \<Rightarrow> (p' # ps', r)))"

definition submit_guess :: "rooms \<Rightarrow> string \<Rightarrow> string \<Rightarrow> string
    \<Rightarrow> rooms \<times> (error + GuessResponse)" where
  "submit_guess rooms roomId playerId guessedPlayerId =
     (case rooms roomId of
        None \<Rightarrow> (rooms, Inl (NotFound ''Room not found''))
      | Some room \<Rightarrow>
          if Some playerId \<noteq> mantri_id room
          then (rooms, Inl (Forbidden ''Only Mantri can guess''))
          else (let room1 = room\<lparr>guess_submitted := True,
                                  guessed_player_id := Some guessedPlayerId\<rparr>;
                    correct_guess = (guessed_player_id room1 = chor_id room1)
                in case score_loop correct_guess (players room1) of
                     (ps', Some e) \<Rightarrow> (rooms(roomId \<mapsto> room1\<lparr>players := ps'\<rparr>), Inl e)
                   | (ps', None) \<Rightarrow>
                       (rooms(roomId \<mapsto> room1\<lparr>players := ps'\<rparr>),
                        Inr \<lparr>result_gr = (if correct_guess then ''correct'' else ''incorrect''),
                             actualChorId_gr = chor_id room1\<rparr>)))"

subsection \<open>result\<close>

record safe_player =
  id_sp :: string
  name_sp :: string
  role_sp :: string
  score_sp :: int

record ResultResponse =
  round_res :: int
  players_res :: "safe_player list"

text \<open>\<open>p.role if p.role else "Unknown"\<close>: \<open>None\<close> and the empty string are both falsy.\<close>

definition safe_player_of :: "player \<Rightarrow> safe_player" where
  "safe_player_of p =
     \<lparr>id_sp = id_player p, name_sp = name_player p,
      role_sp = (case role p of None \<Rightarrow> ''Unknown'' | Some r \<Rightarrow> if r = [] then ''Unknown'' else r),
      score_sp = score p\<rparr>"

definition result :: "rooms \<Rightarrow> string \<Rightarrow> error + ResultResponse" where
  "result rooms roomId =
     (case rooms roomId of
        None \<Rightarrow> Inl (NotFound ''Room not found'')
      | Some room \<Rightarrow>
          if \<not> roles_assigned room then Inl (InvalidState ''Roles not assigned yet'')
          else if \<not> guess_submitted room then Inl (InvalidState ''Mantri has not guessed yet'')
          else Inr \<lparr>round_res = round_number room,
                    players_res = map safe_player_of (players room)\<rparr>)"

subsection \<open>leaderboard\<close>

record leaderboard_entry =
  id_lb :: string
  name_lb :: string
  score_lb :: int

record LeaderboardResponse =
  leaderboard_lr :: "leaderboard_entry list"

definition leaderboard_entry_of :: "player \<Rightarrow> leaderboard_entry" where
  "leaderboard_entry_of p = \<lparr>id_lb = id_player p, name_lb = name_player p, score_lb = score p\<rparr>"

text \<open>
  \<open>sorted(xs, key=lambda p: p.score, reverse=True)\<close>. Python's sort is stable and
  \<open>reverse=True\<close> keeps it so: the result is in descending key order with equal keys in
  their original order, which is the stable ascending sort on the negated key.
\<close>

definition sorted_by_score_reverse :: "player list \<Rightarrow> player list" where
  "sorted_by_score_reverse ps = sort_key (\<lambda>p. - score p) ps"

definition leaderboard :: "rooms \<Rightarrow> string \<Rightarrow> error + LeaderboardResponse" where
  "leaderboard rooms roomId =
     (case rooms roomId of
        None \<Rightarrow> Inl (NotFound ''Room not found'')
      | Some room \<Rightarrow>
          (let sorted_players = sorted_by_score_reverse (players room)
           in Inr \<lparr>leaderboard_lr = map leaderboard_entry_of sorted_players\<rparr>))"

section \<open>The specification's scoring table and helper notions\<close>

text \<open>
  The point table as the specification words it: on a correct guess Raja +1000,
  Mantri +800, Chor +0, Sipahi +500; on an incorrect guess Raja +1000, Mantri +0,
  Chor +800, Sipahi +500. It is compared below with what \<open>submit_guess\<close> computes from
  \<open>POINTS\<close>.
\<close>

definition table_delta :: "bool \<Rightarrow> string option \<Rightarrow> int" where
  "table_delta correctGuess r =
     (if correctGuess
      then (if r = Some ''Raja'' then 1000 else if r = Some ''Mantri'' then 800
            else if r = Some ''Chor'' then 0 else if r = Some ''Sipahi'' then 500 else 0)
      else (if r = Some ''Raja'' then 1000 else if r = Some ''Mantri'' then 0
            else if r = Some ''Chor'' then 800 else if r = Some ''Sipahi'' then 500 else 0))"

definition add_delta :: "bool \<Rightarrow> player \<Rightarrow> player" where
  "add_delta correctGuess p = p\<lparr>score := score p + table_delta correctGuess (role p)\<rparr>"

text \<open>The players one call of \<open>join_multiple_players\<close> creates, one per name, in order.\<close>

fun new_players :: "(nat \<Rightarrow> string) \<Rightarrow> nat \<Rightarrow> string list \<Rightarrow> player list" where
  "new_players uuid4 k [] = []"
| "new_players uuid4 k (name # names) =
     Player_init (uuid4 k) name # new_players uuid4 (Suc k) names"

section \<open>A game of two rounds\<close>

text \<open>
  A room is created by Asha, three players join, roles are assigned, the Mantri guesses
  wrongly, roles are assigned again and the new Mantri guesses wrongly again. The
  identifiers drawn are \<open>h\<close> for the host, \<open>r\<close> for the room and \<open>u\<close>, \<open>uu\<close>,
  \<open>uuu\<close>, ... for the players who join.
\<close>

definition ex_uuid4 :: "nat \<Rightarrow> string" where
  "ex_uuid4 k = replicate (Suc k) (CHR ''u'')"

definition ex_shuffled :: "string list" where
  "ex_shuffled = [''Chor'', ''Raja'', ''Sipahi'', ''Mantri'']"

definition ex_shuffled2 :: "string list" where
  "ex_shuffled2 = [''Sipahi'', ''Mantri'', ''Chor'', ''Raja'']"

definition ex_created :: rooms where
  "ex_created = fst (create_room Map.empty ''h'' ''r'' ''den'' ''Asha'')"

definition ex_joined :: rooms where
  "ex_joined =
     fst (join_multiple_players ex_created ex_uuid4 ''r'' [''Bela'', ''Chand'', ''Dev''])"

definition ex_assigned :: rooms where
  "ex_assigned = fst (assign_roles ex_joined ex_shuffled ''r'')"

definition ex_guessed :: rooms where
  "ex_guessed = fst (submit_guess ex_assigned ''r'' ''uuu'' ''uu'')"

definition ex_reassigned :: rooms where
  "ex_reassigned = fst (assign_roles ex_guessed ex_shuffled2 ''r'')"

definition ex_guessed2 :: rooms where
  "ex_guessed2 = fst (submit_guess ex_reassigned ''r'' ''u'' ''h'')"

text \<open>The room after each of these steps, written out.\<close>

definition room_created :: room where
  "room_created =
     \<lparr>id_room = ''r'', name_room = ''den'',
      players = [\<lparr>id_player = ''h'', name_player = ''Asha'', role = None, score = 0\<rparr>],
      waitlist = [], roles_assigned = False, mantri_id = None, chor_id = None,
      guess_submitted = False, guessed_player_id = None, round_number = 0\<rparr>"

definition room_joined :: room where
  "room_joined =
     \<lparr>id_room = ''r'', name_room = ''den'',
      players = [\<lparr>id_player = ''h'', name_player = ''Asha'', role = None, score = 0\<rparr>,
                 \<lparr>id_player = ''u'', name_player = ''Bela'', role = None, score = 0\<rparr>,
                 \<lparr>id_player = ''uu'', name_player = ''Chand'', role = None, score = 0\<rparr>,
                 \<lparr>id_player = ''uuu'', name_player = ''Dev'', role = None, score = 0\<rparr>],
      waitlist = [], roles_assigned = False, mantri_id = None, chor_id = None,
      guess_submitted = False, guessed_player_id = None, round_number = 0\<rparr>"

definition room_assigned :: room where
  "room_assigned =
     \<lparr>id_room = ''r'', name_room = ''den'',
      players = [\<lparr>id_player = ''h'', name_player = ''Asha'', role = Some ''Chor'', score = 0\<rparr>,
                 \<lparr>id_player = ''u'', name_player = ''Bela'', role = Some ''Raja'', score = 0\<rparr>,
                 \<lparr>id_player = ''uu'', name_player = ''Chand'', role = Some ''Sipahi'', score = 0\<rparr>,
                 \<lparr>id_player = ''uuu'', name_player = ''Dev'', role = Some ''Mantri'', score = 0\<rparr>],
      waitlist = [], roles_assigned = True, mantri_id = Some ''uuu'', chor_id = Some ''h'',
      guess_submitted = False, guessed_player_id = None, round_number = 1\<rparr>"

definition room_guessed :: room where
  "room_guessed =
     \<lparr>id_room = ''r'', name_room = ''den'',
      players = [\<lparr>id_player = ''h'', name_player = ''Asha'', role = Some ''Chor'', score = 800\<rparr>,
                 \<lparr>id_player = ''u'', name_player = ''Bela'', role = Some ''Raja'', score = 1000\<rparr>,
                 \<lparr>id_player = ''uu'', name_player = ''Chand'', role = Some ''Sipahi'', score = 500\<rparr>,
                 \<lparr>id_player = ''uuu'', name_player = ''Dev'', role = Some ''Mantri'', score = 0\<rparr>],
      waitlist = [], roles_assigned = True, mantri_id = Some ''uuu'', chor_id = Some ''h'',
      guess_submitted = True, guessed_player_id = Some ''uu'', round_number = 1\<rparr>"

definition room_reassigned :: room where
  "room_reassigned =
     \<lparr>id_room = ''r'', name_room = ''den'',
      players = [\<lparr>id_player = ''h'', name_player = ''Asha'', role = Some ''Sipahi'', score = 800\<rparr>,
                 \<lparr>id_player = ''u'', name_player = ''Bela'', role = Some ''Mantri'', score = 1000\<rparr>,
                 \<lparr>id_player = ''uu'', name_player = ''Chand'', role = Some ''Chor'', score = 500\<rparr>,
                 \<lparr>id_player = ''uuu'', name_player = ''Dev'', role = Some ''Raja'', score = 0\<rparr>],
      waitlist = [], roles_assigned = True, mantri_id = Some ''u'', chor_id = Some ''uu'',
      guess_submitted = False, guessed_player_id = Some ''uu'', round_number = 2\<rparr>"

definition room_guessed2 :: room where
  "room_guessed2 =
     \<lparr>id_room = ''r'', name_room = ''den'',
      players = [\<lparr>id_player = ''h'', name_player = ''Asha'', role = Some ''Sipahi'', score = 1300\<rparr>,
                 \<lparr>id_player = ''u'', name_player = ''Bela'', role = Some ''Mantri'', score = 1000\<rparr>,
                 \<lparr>id_player = ''uu'', name_player = ''Chand'', role = Some ''Chor'', score = 1300\<rparr>,
                 \<lparr>id_player = ''uuu'', name_player = ''Dev'', role = Some ''Raja'', score = 1000\<rparr>],
      waitlist = [], roles_assigned = True, mantri_id = Some ''u'', chor_id = Some ''uu'',
      guess_submitted = True, guessed_player_id = Some ''h'', round_number = 2\<rparr>"

section \<open>The example game, step by step\<close>

lemma ex_created_eq: "ex_created = [''r'' \<mapsto> room_created]"
  by (simp add: ex_created_def create_room_def Room_init_def Player_init_def room_created_def)

lemma ex_joined_eq: "ex_joined = [''r'' \<mapsto> room_joined]"
  by (simp add: ex_joined_def ex_created_eq join_multiple_players_def room_created_def
      Player_init_def id_name_of_def ex_uuid4_def room_joined_def)

lemma ex_assigned_eq: "ex_assigned = [''r'' \<mapsto> room_assigned]"
  by (simp add: ex_assigned_def ex_joined_eq assign_roles_def room_joined_def ex_shuffled_def
      room_assigned_def)

lemma ex_guessed_eq: "ex_guessed = [''r'' \<mapsto> room_guessed]"
  by (simp add: ex_guessed_def ex_assigned_eq submit_guess_def room_assigned_def
      score_step_def POINTS_getitem_def POINTS_def room_guessed_def)

lemma ex_reassigned_eq: "ex_reassigned = [''r'' \<mapsto> room_reassigned]"
  by (simp add: ex_reassigned_def ex_guessed_eq assign_roles_def room_guessed_def
      ex_shuffled2_def room_reassigned_def)

lemma ex_guessed2_eq: "ex_guessed2 = [''r'' \<mapsto> room_guessed2]"
  by (simp add: ex_guessed2_def ex_reassigned_eq submit_guess_def room_reassigned_def
      score_step_def POINTS_getitem_def POINTS_def room_guessed2_def)

section \<open>Role assignment\<close>

subsection \<open>The assignment loop\<close>

lemma assign_loop_Cons:
  "assign_loop (p # ps) (r # rs) (m, c) =
     (p\<lparr>role := Some r\<rparr> #
        fst (assign_loop ps rs (if r = ''Mantri'' then Some (id_player p) else m,
                                if r = ''Chor'' then Some (id_player p) else c)),
      snd (assign_loop ps rs (if r = ''Mantri'' then Some (id_player p) else m,
                              if r = ''Chor'' then Some (id_player p) else c)))"
  by (simp add: Let_def case_prod_beta)

lemma assign_loop_players:
  "length ps = length rs \<Longrightarrow>
   fst (assign_loop ps rs (m, c)) = map (\<lambda>(p, r). p\<lparr>role := Some r\<rparr>) (zip ps rs)"
proof (induction ps arbitrary: rs m c)
  case Nil
  then show ?case by simp
next
  case (Cons p ps)
  then obtain r rs' where rs: "rs = r # rs'" by (cases rs) auto
  with Cons show ?case by (simp only: assign_loop_Cons) simp
qed

lemma assign_loop_mantri_absent:
  "''Mantri'' \<notin> set rs \<Longrightarrow> fst (snd (assign_loop ps rs (m, c))) = m"
proof (induction ps arbitrary: rs m c)
  case Nil
  then show ?case by simp
next
  case (Cons p ps)
  show ?case
  proof (cases rs)
    case Nil
    then show ?thesis by simp
  next
    case (Cons r rs')
    with Cons.prems have "r \<noteq> ''Mantri''" "''Mantri'' \<notin> set rs'" by auto
    with Cons.IH [of rs' m] Cons show ?thesis by (simp only: assign_loop_Cons) simp
  qed
qed

lemma assign_loop_chor_absent:
  "''Chor'' \<notin> set rs \<Longrightarrow> snd (snd (assign_loop ps rs (m, c))) = c"
proof (induction ps arbitrary: rs m c)
  case Nil
  then show ?case by simp
next
  case (Cons p ps)
  show ?case
  proof (cases rs)
    case Nil
    then show ?thesis by simp
  next
    case (Cons r rs')
    with Cons.prems have "r \<noteq> ''Chor''" "''Chor'' \<notin> set rs'" by auto
    with Cons.IH [of rs' _ c] Cons show ?thesis by (simp only: assign_loop_Cons) simp
  qed
qed

text \<open>
  When the role list has no repetition, the identifier recorded for Mantri (for Chor)
  is that of the player the list pairs with that role.
\<close>

lemma assign_loop_mantri:
  "distinct rs \<Longrightarrow> (p, ''Mantri'') \<in> set (zip ps rs) \<Longrightarrow>
   fst (snd (assign_loop ps rs (m, c))) = Some (id_player p)"
proof (induction ps arbitrary: rs m c)
  case Nil
  then show ?case by simp
next
  case (Cons q ps)
  from Cons.prems obtain r rs' where rs: "rs = r # rs'" by (cases rs) auto
  show ?case
  proof (cases "r = ''Mantri''")
    case True
    with Cons.prems rs have absent: "''Mantri'' \<notin> set rs'" by simp
    with Cons.prems rs True have "p = q" by (auto dest: set_zip_rightD)
    with absent True rs show ?thesis
      by (simp only: assign_loop_Cons) (simp add: assign_loop_mantri_absent)
  next
    case False
    with Cons.prems rs have "distinct rs'" "(p, ''Mantri'') \<in> set (zip ps rs')" by auto
    with Cons.IH False rs show ?thesis by (simp only: assign_loop_Cons) simp
  qed
qed

lemma assign_loop_chor:
  "distinct rs \<Longrightarrow> (p, ''Chor'') \<in> set (zip ps rs) \<Longrightarrow>
   snd (snd (assign_loop ps rs (m, c))) = Some (id_player p)"
proof (induction ps arbitrary: rs m c)
  case Nil
  then show ?case by simp
next
  case (Cons q ps)
  from Cons.prems obtain r rs' where rs: "rs = r # rs'" by (cases rs) auto
  show ?case
  proof (cases "r = ''Chor''")
    case True
    with Cons.prems rs have absent: "''Chor'' \<notin> set rs'" by simp
    with Cons.prems rs True have "p = q" by (auto dest: set_zip_rightD)
    with absent True rs show ?thesis
      by (simp only: assign_loop_Cons) (simp add: assign_loop_chor_absent)
  next
    case False
    with Cons.prems rs have "distinct rs'" "(p, ''Chor'') \<in> set (zip ps rs')" by auto
    with Cons.IH False rs show ?thesis by (simp only: assign_loop_Cons) simp
  qed
qed

lemma holder_in_zip:
  assumes "length ps = length rs"
    and "q \<in> set (map (\<lambda>(p, r). p\<lparr>role := Some r\<rparr>) (zip ps rs))"
    and "role q = Some x"
  shows "\<exists>p. (p, x) \<in> set (zip ps rs) \<and> id_player q = id_player p"
  using assms by auto

lemma role_has_holder:
  assumes "length ps = length rs" and "x \<in> set rs"
  shows "\<exists>q \<in> set (map (\<lambda>(p, r). p\<lparr>role := Some r\<rparr>) (zip ps rs)). role q = Some x"
proof -
  from assms obtain i where i: "i < length rs" "rs ! i = x" by (auto simp: in_set_conv_nth)
  with assms have "(ps ! i, x) \<in> set (zip ps rs)" by (auto simp: set_zip)
  then show ?thesis by force
qed

lemma map_role_zip:
  "length ps = length rs \<Longrightarrow>
   map role (map (\<lambda>(p, r). p\<lparr>role := Some r\<rparr>) (zip ps rs)) = map Some rs"
  by (induction ps rs rule: list_induct2) simp_all

lemma map_id_player_zip:
  "length ps = length rs \<Longrightarrow>
   map id_player (map (\<lambda>(p, r). p\<lparr>role := Some r\<rparr>) (zip ps rs)) = map id_player ps"
  by (induction ps rs rule: list_induct2) simp_all

text \<open>The room a successful call stores.\<close>

lemma assign_roles_success_room:
  assumes "rooms roomId = Some room"
    and "assign_roles rooms shuffled roomId = (rooms', Inr resp)"
  shows "rooms' roomId =
           Some (room\<lparr>players := fst (assign_loop (players room) shuffled (mantri_id room, chor_id room)),
                      mantri_id := fst (snd (assign_loop (players room) shuffled (mantri_id room, chor_id room))),
                      chor_id := snd (snd (assign_loop (players room) shuffled (mantri_id room, chor_id room))),
                      roles_assigned := True, guess_submitted := False,
                      round_number := round_number room + 1\<rparr>)"
  using assms
  by (auto simp: assign_roles_def Let_def split: if_splits prod.splits)

lemma ex_reassign_call:
  "assign_roles ex_guessed ex_shuffled2 ''r'' =
     ([''r'' \<mapsto> room_reassigned], Inr \<lparr>message_ar = ''Roles assigned for round 2''\<rparr>)"
  by (simp add: ex_guessed_eq assign_roles_def room_guessed_def ex_shuffled2_def
      room_reassigned_def str_int_def digit_char_def)

subsection \<open>A room without exactly four players\<close>

text \<open>
  C5. For a room whose number of active players is not exactly 4, \<open>assign_roles\<close>
  fails with InvalidState (status 400) and the whole state, the room with its roles,
  \<open>mantri_id\<close>, \<open>chor_id\<close>, flags, round number and scores, is what it was before.
\<close>

theorem assign_roles_wrong_count:
  assumes "rooms roomId = Some room" and "length (players room) \<noteq> 4"
  shows "assign_roles rooms shuffled roomId =
           (rooms, Inl (InvalidState ''Exactly 4 players are required to start the game''))"
  using assms by (simp add: assign_roles_def)

theorem assign_roles_wrong_count_witness:
  "ex_created ''r'' = Some room_created \<and> length (players room_created) = 1 \<and>
   assign_roles ex_created ex_shuffled ''r'' =
     (ex_created, Inl (InvalidState ''Exactly 4 players are required to start the game''))"
proof -
  have a: "ex_created ''r'' = Some room_created" by (simp add: ex_created_eq)
  have b: "length (players room_created) = 1" by (simp add: room_created_def)
  then have c: "length (players room_created) \<noteq> 4" by simp
  from assign_roles_wrong_count [of ex_created "''r''" room_created ex_shuffled, OF a c] a b
  show ?thesis by simp
qed

subsection \<open>A room with exactly four players\<close>

text \<open>
  C2. In a room with exactly 4 active players, \<open>assign_roles\<close> succeeds whenever
  the shuffle has left a permutation of the four roles. It gives the players, in their
  order, the roles of the shuffled list, so each of Raja, Mantri, Chor and Sipahi is held
  exactly once and the players are the same as before; \<open>mantri_id\<close> and \<open>chor_id\<close> are
  the identifiers of the holders of Mantri and Chor; \<open>roles_assigned\<close> is true,
  \<open>guess_submitted\<close> is false and \<open>round_number\<close> has grown by exactly 1.
\<close>

theorem assign_roles_permutation:
  assumes room: "rooms roomId = Some room"
    and four: "length (players room) = 4"
    and perm: "mset shuffled = mset ROLES"
  shows "\<exists>room' resp.
           assign_roles rooms shuffled roomId = (rooms(roomId \<mapsto> room'), Inr resp) \<and>
           length (players room') = 4 \<and>
           map role (players room') = map Some shuffled \<and>
           mset (map role (players room')) = mset (map Some ROLES) \<and>
           distinct (map role (players room')) \<and>
           map id_player (players room') = map id_player (players room) \<and>
           (\<exists>p \<in> set (players room'). role p = Some ''Mantri'') \<and>
           (\<forall>p \<in> set (players room'). role p = Some ''Mantri'' \<longrightarrow>
              mantri_id room' = Some (id_player p)) \<and>
           (\<exists>p \<in> set (players room'). role p = Some ''Chor'') \<and>
           (\<forall>p \<in> set (players room'). role p = Some ''Chor'' \<longrightarrow>
              chor_id room' = Some (id_player p)) \<and>
           roles_assigned room' \<and> \<not> guess_submitted room' \<and>
           round_number room' = round_number room + 1"
proof -
  let ?ps = "players room"
  let ?ps' = "map (\<lambda>(p, r). p\<lparr>role := Some r\<rparr>) (zip ?ps shuffled)"
  obtain m' c' where mc: "snd (assign_loop ?ps shuffled (mantri_id room, chor_id room)) = (m', c')"
    by (cases "snd (assign_loop ?ps shuffled (mantri_id room, chor_id room))") auto
  let ?room' = "room\<lparr>players := ?ps', mantri_id := m', chor_id := c',
                     roles_assigned := True, guess_submitted := False,
                     round_number := round_number room + 1\<rparr>"
  from perm have len: "length shuffled = 4"
    using mset_eq_length [of shuffled ROLES] by (simp add: ROLES_def)
  with four have same: "length ?ps = length shuffled" by simp
  from perm have dist: "distinct shuffled"
    using mset_eq_imp_distinct_iff [of shuffled ROLES] by (simp add: ROLES_def)
  from perm have elems: "set shuffled = set ROLES" by (rule mset_eq_setD)
  from same have fst_loop: "fst (assign_loop ?ps shuffled (mantri_id room, chor_id room)) = ?ps'"
    by (rule assign_loop_players)
  with mc have loop: "assign_loop ?ps shuffled (mantri_id room, chor_id room) = (?ps', m', c')"
    by (metis prod.collapse)
  from room four loop
  have call: "assign_roles rooms shuffled roomId =
      (rooms(roomId \<mapsto> ?room'),
       Inr \<lparr>message_ar = ''Roles assigned for round '' @ str_int (round_number ?room')\<rparr>)"
    by (simp add: assign_roles_def Let_def)
  from same have roles: "map role ?ps' = map Some shuffled"
    by (rule map_role_zip)
  from same have ids: "map id_player ?ps' = map id_player ?ps"
    by (rule map_id_player_zip)
  have roles_mset: "mset (map role ?ps') = mset (map Some ROLES)"
    using roles perm by (metis mset_map)
  have roles_dist: "distinct (map role ?ps')"
    using roles dist by (simp add: distinct_map)
  have mantri_ex: "\<exists>p \<in> set ?ps'. role p = Some ''Mantri''"
    using role_has_holder [OF same, of "''Mantri''"] elems by (simp add: ROLES_def)
  have chor_ex: "\<exists>p \<in> set ?ps'. role p = Some ''Chor''"
    using role_has_holder [OF same, of "''Chor''"] elems by (simp add: ROLES_def)
  have mantri_all: "\<forall>p \<in> set ?ps'. role p = Some ''Mantri'' \<longrightarrow> m' = Some (id_player p)"
  proof (intro ballI impI)
    fix q assume "q \<in> set ?ps'" "role q = Some ''Mantri''"
    with holder_in_zip [OF same] obtain p
      where p: "(p, ''Mantri'') \<in> set (zip ?ps shuffled)" "id_player q = id_player p"
      by blast
    from assign_loop_mantri [OF dist p(1), of "mantri_id room" "chor_id room"] mc p(2)
    show "m' = Some (id_player q)" by simp
  qed
  have chor_all: "\<forall>p \<in> set ?ps'. role p = Some ''Chor'' \<longrightarrow> c' = Some (id_player p)"
  proof (intro ballI impI)
    fix q assume "q \<in> set ?ps'" "role q = Some ''Chor''"
    with holder_in_zip [OF same] obtain p
      where p: "(p, ''Chor'') \<in> set (zip ?ps shuffled)" "id_player q = id_player p"
      by blast
    from assign_loop_chor [OF dist p(1), of "mantri_id room" "chor_id room"] mc p(2)
    show "c' = Some (id_player q)" by simp
  qed
  have len': "length ?ps' = 4" using same four by simp
  show ?thesis
    apply (rule exI [of _ ?room'])
    apply (rule exI)
    apply (intro conjI)
    apply (rule call)
    using len' roles roles_mset roles_dist ids mantri_ex mantri_all chor_ex chor_all
    apply simp_all
    done
qed

theorem assign_roles_permutation_witness:
  "ex_joined ''r'' = Some room_joined \<and> length (players room_joined) = 4 \<and>
   mset ex_shuffled = mset ROLES \<and>
   (\<exists>room' resp.
      assign_roles ex_joined ex_shuffled ''r'' = (ex_joined(''r'' \<mapsto> room'), Inr resp) \<and>
      map role (players room') =
        [Some ''Chor'', Some ''Raja'', Some ''Sipahi'', Some ''Mantri''] \<and>
      map id_player (players room') = [''h'', ''u'', ''uu'', ''uuu''] \<and>
      mantri_id room' = Some ''uuu'' \<and> chor_id room' = Some ''h'' \<and>
      roles_assigned room' \<and> \<not> guess_submitted room' \<and> round_number room' = 1)"
proof -
  have a: "ex_joined ''r'' = Some room_joined" by (simp add: ex_joined_eq)
  have b: "length (players room_joined) = 4" by (simp add: room_joined_def)
  have c: "mset ex_shuffled = mset ROLES" by (simp add: ex_shuffled_def ROLES_def)
  from assign_roles_permutation [of ex_joined "''r''" room_joined ex_shuffled, OF a b c]
  obtain room' resp where
    call: "assign_roles ex_joined ex_shuffled ''r'' = (ex_joined(''r'' \<mapsto> room'), Inr resp)"
    and len: "length (players room') = 4"
    and roles: "map role (players room') = map Some ex_shuffled"
    and ids: "map id_player (players room') = map id_player (players room_joined)"
    and mantri: "\<forall>p \<in> set (players room'). role p = Some ''Mantri'' \<longrightarrow>
                   mantri_id room' = Some (id_player p)"
    and chor: "\<forall>p \<in> set (players room'). role p = Some ''Chor'' \<longrightarrow>
                 chor_id room' = Some (id_player p)"
    and flags: "roles_assigned room'" "\<not> guess_submitted room'"
    and round: "round_number room' = round_number room_joined + 1"
    by blast
  from len obtain p1 p2 p3 p4 where ps: "players room' = [p1, p2, p3, p4]"
    by (auto simp: length_Suc_conv eval_nat_numeral)
  from roles ps have r: "role p1 = Some ''Chor''" "role p4 = Some ''Mantri''"
    by (simp_all add: ex_shuffled_def)
  from ids ps have i: "id_player p1 = ''h''" "id_player p4 = ''uuu''"
    by (simp_all add: room_joined_def)
  from mantri ps r i have m: "mantri_id room' = Some ''uuu''" by simp
  from chor ps r i have ch: "chor_id room' = Some ''h''" by simp
  from roles have roles': "map role (players room') =
      [Some ''Chor'', Some ''Raja'', Some ''Sipahi'', Some ''Mantri'']"
    by (simp add: ex_shuffled_def)
  from ids have ids': "map id_player (players room') = [''h'', ''u'', ''uu'', ''uuu'']"
    by (simp add: room_joined_def)
  from round have round': "round_number room' = 1" by (simp add: room_joined_def)
  from call roles' ids' m ch flags round' have
    "\<exists>room' resp.
      assign_roles ex_joined ex_shuffled ''r'' = (ex_joined(''r'' \<mapsto> room'), Inr resp) \<and>
      map role (players room') =
        [Some ''Chor'', Some ''Raja'', Some ''Sipahi'', Some ''Mantri''] \<and>
      map id_player (players room') = [''h'', ''u'', ''uu'', ''uuu''] \<and>
      mantri_id room' = Some ''uuu'' \<and> chor_id room' = Some ''h'' \<and>
      roles_assigned room' \<and> \<not> guess_submitted room' \<and> round_number room' = 1"
    by (intro exI [of _ room'] exI [of _ resp]) simp
  with a b c show ?thesis by simp
qed

subsection \<open>The guess recorded in an earlier round\<close>

text \<open>
  C3, as the claim states it, fails: \<open>assign_roles\<close> never writes
  \<open>guessed_player_id\<close>. In the example game the first round's guess named player
  \<open>uu\<close>; the second call of \<open>assign_roles\<close> succeeds and the room still records it.
\<close>

theorem assign_roles_guessed_player_id_counterexample:
  "\<not> isl (snd (assign_roles ex_guessed ex_shuffled2 ''r'')) \<and>
   map_option guessed_player_id (fst (assign_roles ex_guessed ex_shuffled2 ''r'') ''r'') =
     Some (Some ''uu'') \<and>
   map_option guessed_player_id (fst (assign_roles ex_guessed ex_shuffled2 ''r'') ''r'') \<noteq>
     Some None"
  by (simp add: ex_reassign_call room_reassigned_def)

text \<open>
  C3, amended. A successful \<open>assign_roles\<close> leaves \<open>guessed_player_id\<close> as it was,
  so the guess of an earlier round stays recorded; what it resets is the flag
  \<open>guess_submitted\<close>, which is false afterwards.
\<close>

theorem assign_roles_keeps_guessed_player_id:
  assumes "rooms roomId = Some room"
    and "assign_roles rooms shuffled roomId = (rooms', Inr resp)"
  shows "\<exists>room'. rooms' roomId = Some room' \<and>
           guessed_player_id room' = guessed_player_id room \<and> \<not> guess_submitted room'"
proof -
  from assign_roles_success_room [of rooms roomId room shuffled rooms' resp, OF assms]
  show ?thesis by simp
qed

theorem assign_roles_keeps_guessed_player_id_witness:
  "ex_guessed ''r'' = Some room_guessed \<and> guess_submitted room_guessed \<and>
   guessed_player_id room_guessed = Some ''uu'' \<and>
   assign_roles ex_guessed ex_shuffled2 ''r'' =
     ([''r'' \<mapsto> room_reassigned], Inr \<lparr>message_ar = ''Roles assigned for round 2''\<rparr>) \<and>
   (\<exists>room'. [''r'' \<mapsto> room_reassigned] ''r'' = Some room' \<and>
      guessed_player_id room' = Some ''uu'' \<and> \<not> guess_submitted room')"
proof -
  have a: "ex_guessed ''r'' = Some room_guessed" by (simp add: ex_guessed_eq)
  have g: "guess_submitted room_guessed" "guessed_player_id room_guessed = Some ''uu''"
    by (simp_all add: room_guessed_def)
  from assign_roles_keeps_guessed_player_id [of ex_guessed "''r''" room_guessed ex_shuffled2
      "[''r'' \<mapsto> room_reassigned]" "\<lparr>message_ar = ''Roles assigned for round 2''\<rparr>",
      OF a ex_reassign_call] g(2)
  have "\<exists>room'. [''r'' \<mapsto> room_reassigned] ''r'' = Some room' \<and>
      guessed_player_id room' = Some ''uu'' \<and> \<not> guess_submitted room'"
    by simp
  with a g ex_reassign_call show ?thesis by simp
qed

section \<open>Guess resolution and scoring\<close>

subsection \<open>The scoring loop against the table\<close>

lemma score_step_table:
  "role p \<in> Some ` set ROLES \<Longrightarrow> score_step c p = Inr (add_delta c p)"
  by (auto simp: score_step_def add_delta_def table_delta_def POINTS_getitem_def POINTS_def
      ROLES_def)

lemma score_loop_table:
  "\<forall>p \<in> set ps. role p \<in> Some ` set ROLES \<Longrightarrow>
   score_loop c ps = (map (add_delta c) ps, None)"
  by (induction ps) (simp_all add: score_step_table)

lemma role_add_delta [simp]: "role (add_delta c p) = role p"
  by (simp add: add_delta_def)

lemma score_add_delta [simp]: "score (add_delta c p) = score p + table_delta c (role p)"
  by (simp add: add_delta_def)

lemma submit_guess_success:
  assumes "rooms roomId = Some room" and "mantri_id room = Some playerId"
    and "\<forall>p \<in> set (players room). role p \<in> Some ` set ROLES"
  shows "submit_guess rooms roomId playerId g =
           (rooms(roomId \<mapsto> room\<lparr>guess_submitted := True, guessed_player_id := Some g,
                                  players := map (add_delta (Some g = chor_id room)) (players room)\<rparr>),
            Inr \<lparr>result_gr = (if Some g = chor_id room then ''correct'' else ''incorrect''),
                 actualChorId_gr = chor_id room\<rparr>)"
  using assms by (simp add: submit_guess_def Let_def score_loop_table)

lemma sum_table_delta_ROLES: "sum_list (map (table_delta c) (map Some ROLES)) = 2300"
  by (cases c) (simp_all add: table_delta_def ROLES_def)

lemma sum_score_add_delta:
  "sum_list (map score (map (add_delta c) ps)) =
     sum_list (map score ps) + sum_list (map (table_delta c) (map role ps))"
  by (induction ps) simp_all

lemma ex_guess_call:
  "submit_guess ex_assigned ''r'' ''uuu'' ''uu'' =
     ([''r'' \<mapsto> room_guessed], Inr \<lparr>result_gr = ''incorrect'', actualChorId_gr = Some ''h''\<rparr>)"
  by (simp add: ex_assigned_eq submit_guess_def room_assigned_def score_step_def
      POINTS_getitem_def POINTS_def room_guessed_def)

lemma ex_guess_correct_call:
  "snd (submit_guess ex_assigned ''r'' ''uuu'' ''h'') =
     Inr \<lparr>result_gr = ''correct'', actualChorId_gr = Some ''h''\<rparr>"
  by (simp add: ex_assigned_eq submit_guess_def room_assigned_def score_step_def
      POINTS_getitem_def POINTS_def)

subsection \<open>Scores grow by the table's delta\<close>

text \<open>
  C1. In a room where every active player holds one of the four roles, a guess by
  the player recorded as Mantri succeeds and replaces each active player's score by that
  score plus the table's delta for the player's role (correct guess: Raja 1000,
  Mantri 800, Chor 0, Sipahi 500; incorrect: Raja 1000, Mantri 0, Chor 800, Sipahi 500);
  nothing else of a player changes. A second successful call adds its delta to the
  result of the first, so the deltas accumulate.
\<close>

theorem submit_guess_adds_table_delta:
  assumes room: "rooms roomId = Some room" and mantri: "mantri_id room = Some playerId"
    and roles: "\<forall>p \<in> set (players room). role p \<in> Some ` set ROLES"
  shows "\<exists>rooms1 resp1 room1 rooms2 resp2 room2.
           submit_guess rooms roomId playerId g1 = (rooms1, Inr resp1) \<and>
           rooms1 roomId = Some room1 \<and>
           players room1 =
             map (\<lambda>p. p\<lparr>score := score p + table_delta (Some g1 = chor_id room) (role p)\<rparr>)
                 (players room) \<and>
           submit_guess rooms1 roomId playerId g2 = (rooms2, Inr resp2) \<and>
           rooms2 roomId = Some room2 \<and>
           players room2 =
             map (\<lambda>p. p\<lparr>score := score p + table_delta (Some g1 = chor_id room) (role p)
                                          + table_delta (Some g2 = chor_id room) (role p)\<rparr>)
                 (players room)"
proof -
  let ?c1 = "Some g1 = chor_id room" and ?c2 = "Some g2 = chor_id room"
  let ?room1 = "room\<lparr>guess_submitted := True, guessed_player_id := Some g1,
                     players := map (add_delta ?c1) (players room)\<rparr>"
  let ?rooms1 = "rooms(roomId \<mapsto> ?room1)"
  let ?room2 = "?room1\<lparr>guess_submitted := True, guessed_player_id := Some g2,
                     players := map (add_delta ?c2) (players ?room1)\<rparr>"
  have first: "submit_guess rooms roomId playerId g1 =
      (?rooms1, Inr \<lparr>result_gr = (if ?c1 then ''correct'' else ''incorrect''),
                     actualChorId_gr = chor_id room\<rparr>)"
    by (rule submit_guess_success [of rooms roomId room playerId g1, OF room mantri roles])
  have room1: "?rooms1 roomId = Some ?room1" by simp
  have mantri1: "mantri_id ?room1 = Some playerId" using mantri by simp
  have roles1: "\<forall>p \<in> set (players ?room1). role p \<in> Some ` set ROLES" using roles by simp
  have second: "submit_guess ?rooms1 roomId playerId g2 =
      (?rooms1(roomId \<mapsto> ?room2),
       Inr \<lparr>result_gr = (if Some g2 = chor_id ?room1 then ''correct'' else ''incorrect''),
            actualChorId_gr = chor_id ?room1\<rparr>)"
    using submit_guess_success [of ?rooms1 roomId ?room1 playerId g2, OF room1 mantri1 roles1]
    by simp
  have p1: "players ?room1 =
      map (\<lambda>p. p\<lparr>score := score p + table_delta ?c1 (role p)\<rparr>) (players room)"
    by (simp add: add_delta_def)
  have p2: "players ?room2 =
      map (\<lambda>p. p\<lparr>score := score p + table_delta ?c1 (role p) + table_delta ?c2 (role p)\<rparr>)
          (players room)"
    by (simp add: add_delta_def)
  have room2: "(?rooms1(roomId \<mapsto> ?room2)) roomId = Some ?room2" by simp
  from first room1 p1 second room2 p2 show ?thesis by blast
qed

theorem submit_guess_adds_table_delta_witness:
  "ex_assigned ''r'' = Some room_assigned \<and> mantri_id room_assigned = Some ''uuu'' \<and>
   chor_id room_assigned = Some ''h'' \<and>
   map role (players room_assigned) =
     [Some ''Chor'', Some ''Raja'', Some ''Sipahi'', Some ''Mantri''] \<and>
   map score (players room_assigned) = [0, 0, 0, 0] \<and>
   (\<exists>rooms1 resp1 room1 rooms2 resp2 room2.
      submit_guess ex_assigned ''r'' ''uuu'' ''h'' = (rooms1, Inr resp1) \<and>
      rooms1 ''r'' = Some room1 \<and>
      map score (players room1) = [0, 1000, 500, 800] \<and>
      submit_guess rooms1 ''r'' ''uuu'' ''uu'' = (rooms2, Inr resp2) \<and>
      rooms2 ''r'' = Some room2 \<and>
      map score (players room2) = [800, 2000, 1000, 800])"
proof -
  have a: "ex_assigned ''r'' = Some room_assigned" by (simp add: ex_assigned_eq)
  have b: "mantri_id room_assigned = Some ''uuu''" by (simp add: room_assigned_def)
  have c: "\<forall>p \<in> set (players room_assigned). role p \<in> Some ` set ROLES"
    by (simp add: room_assigned_def ROLES_def)
  have d: "chor_id room_assigned = Some ''h''" by (simp add: room_assigned_def)
  have e: "map role (players room_assigned) =
      [Some ''Chor'', Some ''Raja'', Some ''Sipahi'', Some ''Mantri'']"
    by (simp add: room_assigned_def)
  have f: "map score (players room_assigned) = [0, 0, 0, 0]"
    by (simp add: room_assigned_def)
  from submit_guess_adds_table_delta
    [of ex_assigned "''r''" room_assigned "''uuu''" "''h''" "''uu''", OF a b c]
  obtain rooms1 resp1 room1 rooms2 resp2 room2 where
    s1: "submit_guess ex_assigned ''r'' ''uuu'' ''h'' = (rooms1, Inr resp1)"
    and r1: "rooms1 ''r'' = Some room1"
    and p1: "players room1 =
       map (\<lambda>p. p\<lparr>score := score p + table_delta (Some ''h'' = chor_id room_assigned) (role p)\<rparr>)
           (players room_assigned)"
    and s2: "submit_guess rooms1 ''r'' ''uuu'' ''uu'' = (rooms2, Inr resp2)"
    and r2: "rooms2 ''r'' = Some room2"
    and p2: "players room2 =
       map (\<lambda>p. p\<lparr>score := score p + table_delta (Some ''h'' = chor_id room_assigned) (role p)
                                    + table_delta (Some ''uu'' = chor_id room_assigned) (role p)\<rparr>)
           (players room_assigned)"
    by blast
  from p1 have q1: "map score (players room1) = [0, 1000, 500, 800]"
    by (simp add: room_assigned_def table_delta_def)
  from p2 have q2: "map score (players room2) = [800, 2000, 1000, 800]"
    by (simp add: room_assigned_def table_delta_def)
  from s1 r1 q1 s2 r2 q2 have
    "\<exists>rooms1 resp1 room1 rooms2 resp2 room2.
      submit_guess ex_assigned ''r'' ''uuu'' ''h'' = (rooms1, Inr resp1) \<and>
      rooms1 ''r'' = Some room1 \<and>
      map score (players room1) = [0, 1000, 500, 800] \<and>
      submit_guess rooms1 ''r'' ''uuu'' ''uu'' = (rooms2, Inr resp2) \<and>
      rooms2 ''r'' = Some room2 \<and>
      map score (players room2) = [800, 2000, 1000, 800]"
    by (intro exI [of _ rooms1] exI [of _ resp1] exI [of _ room1]
        exI [of _ rooms2] exI [of _ resp2] exI [of _ room2]) simp
  with a b d e f show ?thesis by simp
qed

subsection \<open>Every guess hands out 2300 points\<close>

text \<open>
  C10. In a room whose active players hold the four roles once each, a guess by the
  player recorded as Mantri succeeds and the sum of the active players' scores grows by
  exactly 2300, whether the guess is correct or not; the waitlist, and with it every
  waitlisted player's score, is unchanged.
\<close>

theorem submit_guess_total_2300:
  assumes room: "rooms roomId = Some room" and mantri: "mantri_id room = Some playerId"
    and perm: "mset (map role (players room)) = mset (map Some ROLES)"
  shows "\<exists>rooms' resp room'.
           submit_guess rooms roomId playerId g = (rooms', Inr resp) \<and>
           rooms' roomId = Some room' \<and>
           sum_list (map score (players room')) = sum_list (map score (players room)) + 2300 \<and>
           waitlist room' = waitlist room"
proof -
  let ?c = "Some g = chor_id room"
  let ?room' = "room\<lparr>guess_submitted := True, guessed_player_id := Some g,
                     players := map (add_delta ?c) (players room)\<rparr>"
  from perm have "set (map role (players room)) = set (map Some ROLES)" by (rule mset_eq_setD)
  then have roles: "\<forall>p \<in> set (players room). role p \<in> Some ` set ROLES" by auto
  have call: "submit_guess rooms roomId playerId g =
      (rooms(roomId \<mapsto> ?room'),
       Inr \<lparr>result_gr = (if ?c then ''correct'' else ''incorrect''),
            actualChorId_gr = chor_id room\<rparr>)"
    by (rule submit_guess_success [of rooms roomId room playerId g, OF room mantri roles])
  have "sum_list (map (table_delta ?c) (map role (players room))) =
        sum_mset (image_mset (table_delta ?c) (mset (map role (players room))))"
    by (metis mset_map sum_mset_sum_list)
  also have "\<dots> = sum_mset (image_mset (table_delta ?c) (mset (map Some ROLES)))"
    by (simp only: perm)
  also have "\<dots> = sum_list (map (table_delta ?c) (map Some ROLES))"
    by (metis mset_map sum_mset_sum_list)
  also have "\<dots> = 2300" by (rule sum_table_delta_ROLES)
  finally have total: "sum_list (map (table_delta ?c) (map role (players room))) = 2300" .
  have "players ?room' = map (add_delta ?c) (players room)" by simp
  then have "sum_list (map score (players ?room')) =
      sum_list (map score (players room)) + 2300"
    by (simp only: sum_score_add_delta total)
  moreover have "(rooms(roomId \<mapsto> ?room')) roomId = Some ?room'" by simp
  moreover have "waitlist ?room' = waitlist room" by simp
  ultimately show ?thesis using call by blast
qed

theorem submit_guess_total_2300_witness:
  "ex_reassigned ''r'' = Some room_reassigned \<and> mantri_id room_reassigned = Some ''u'' \<and>
   mset (map role (players room_reassigned)) = mset (map Some ROLES) \<and>
   sum_list (map score (players room_reassigned)) = 2300 \<and>
   (\<exists>rooms' resp room'.
      submit_guess ex_reassigned ''r'' ''u'' ''h'' = (rooms', Inr resp) \<and>
      rooms' ''r'' = Some room' \<and>
      sum_list (map score (players room')) = 4600 \<and> waitlist room' = [])"
proof -
  have a: "ex_reassigned ''r'' = Some room_reassigned" by (simp add: ex_reassigned_eq)
  have b: "mantri_id room_reassigned = Some ''u''" by (simp add: room_reassigned_def)
  have c: "mset (map role (players room_reassigned)) = mset (map Some ROLES)"
    by (simp add: room_reassigned_def ROLES_def)
  have d: "sum_list (map score (players room_reassigned)) = 2300"
    by (simp add: room_reassigned_def)
  have w: "waitlist room_reassigned = []" by (simp add: room_reassigned_def)
  from submit_guess_total_2300 [of ex_reassigned "''r''" room_reassigned "''u''" "''h''", OF a b c]
  obtain rooms' resp room' where
    s: "submit_guess ex_reassigned ''r'' ''u'' ''h'' = (rooms', Inr resp)"
    and r: "rooms' ''r'' = Some room'"
    and t: "sum_list (map score (players room')) =
            sum_list (map score (players room_reassigned)) + 2300"
    and wl: "waitlist room' = waitlist room_reassigned"
    by blast
  from t d have t': "sum_list (map score (players room')) = 4600" by simp
  from wl w have wl': "waitlist room' = []" by simp
  from s r t' wl' have
    "\<exists>rooms' resp room'.
      submit_guess ex_reassigned ''r'' ''u'' ''h'' = (rooms', Inr resp) \<and>
      rooms' ''r'' = Some room' \<and>
      sum_list (map score (players room')) = 4600 \<and> waitlist room' = []"
    by (intro exI [of _ rooms'] exI [of _ resp] exI [of _ room']) simp
  with a b c d show ?thesis by simp
qed

subsection \<open>Only the recorded Mantri may guess\<close>

text \<open>
  C6. In an existing room, a guess by a player whose id is not the room's
  \<open>mantri_id\<close> fails with Forbidden (status 403) and the state, every score included,
  is unchanged. A call that succeeds was made by the recorded Mantri; its result is
  \<open>correct\<close> exactly when the guessed id is the room's \<open>chor_id\<close> and \<open>incorrect\<close>
  otherwise, and it carries \<open>chor_id\<close> as \<open>actualChorId\<close>.
\<close>

theorem submit_guess_only_mantri:
  assumes "rooms roomId = Some room"
  shows "(Some playerId \<noteq> mantri_id room \<longrightarrow>
            submit_guess rooms roomId playerId g =
              (rooms, Inl (Forbidden ''Only Mantri can guess''))) \<and>
         (\<forall>rooms' resp. submit_guess rooms roomId playerId g = (rooms', Inr resp) \<longrightarrow>
            mantri_id room = Some playerId \<and>
            (result_gr resp = ''correct'' \<longleftrightarrow> Some g = chor_id room) \<and>
            (result_gr resp = ''incorrect'' \<longleftrightarrow> Some g \<noteq> chor_id room) \<and>
            actualChorId_gr resp = chor_id room)"
  using assms
  by (auto simp: submit_guess_def Let_def split: if_splits prod.splits option.splits)

theorem submit_guess_only_mantri_witness:
  "ex_assigned ''r'' = Some room_assigned \<and>
   mantri_id room_assigned = Some ''uuu'' \<and> chor_id room_assigned = Some ''h'' \<and>
   submit_guess ex_assigned ''r'' ''h'' ''uu'' =
     (ex_assigned, Inl (Forbidden ''Only Mantri can guess'')) \<and>
   submit_guess ex_assigned ''r'' ''uuu'' ''uu'' =
     ([''r'' \<mapsto> room_guessed],
      Inr \<lparr>result_gr = ''incorrect'', actualChorId_gr = Some ''h''\<rparr>) \<and>
   snd (submit_guess ex_assigned ''r'' ''uuu'' ''h'') =
     Inr \<lparr>result_gr = ''correct'', actualChorId_gr = Some ''h''\<rparr>"
proof -
  have a: "ex_assigned ''r'' = Some room_assigned" by (simp add: ex_assigned_eq)
  have b: "mantri_id room_assigned = Some ''uuu''" "chor_id room_assigned = Some ''h''"
    by (simp_all add: room_assigned_def)
  from b have c: "Some ''h'' \<noteq> mantri_id room_assigned" by simp
  from submit_guess_only_mantri [of ex_assigned "''r''" room_assigned "''h''" "''uu''", OF a] c
  have forbidden: "submit_guess ex_assigned ''r'' ''h'' ''uu'' =
      (ex_assigned, Inl (Forbidden ''Only Mantri can guess''))"
    by blast
  from submit_guess_only_mantri [of ex_assigned "''r''" room_assigned "''uuu''" "''uu''", OF a]
    ex_guess_call
  have "actualChorId_gr \<lparr>result_gr = ''incorrect'', actualChorId_gr = Some ''h''\<rparr> =
      chor_id room_assigned"
    by blast
  with a b forbidden ex_guess_call ex_guess_correct_call show ?thesis by simp
qed

section \<open>Read-only views\<close>

subsection \<open>The result needs roles and a guess\<close>

text \<open>
  C7. In an existing room, \<open>result\<close> fails with InvalidState (status 400) when roles
  have not been assigned, and fails with InvalidState when roles are assigned but no
  guess has been submitted; it succeeds exactly when both flags are set. Right after a
  successful \<open>assign_roles\<close> it fails for the missing guess, and after a successful
  \<open>submit_guess\<close> in a room with roles assigned it succeeds.
\<close>

theorem result_needs_roles_and_guess:
  assumes "rooms roomId = Some room"
  shows "(\<not> roles_assigned room \<longrightarrow>
            result rooms roomId = Inl (InvalidState ''Roles not assigned yet'')) \<and>
         (roles_assigned room \<and> \<not> guess_submitted room \<longrightarrow>
            result rooms roomId = Inl (InvalidState ''Mantri has not guessed yet'')) \<and>
         ((\<exists>resp. result rooms roomId = Inr resp) \<longleftrightarrow>
            roles_assigned room \<and> guess_submitted room) \<and>
         (\<forall>rooms' resp. assign_roles rooms shuffled roomId = (rooms', Inr resp) \<longrightarrow>
            result rooms' roomId = Inl (InvalidState ''Mantri has not guessed yet'')) \<and>
         (\<forall>rooms' resp. roles_assigned room \<and>
              submit_guess rooms roomId playerId g = (rooms', Inr resp) \<longrightarrow>
            (\<exists>r. result rooms' roomId = Inr r))"
proof (intro conjI allI impI)
  show "result rooms roomId = Inl (InvalidState ''Roles not assigned yet'')"
    if "\<not> roles_assigned room"
    using that assms by (simp add: result_def)
  show "result rooms roomId = Inl (InvalidState ''Mantri has not guessed yet'')"
    if "roles_assigned room \<and> \<not> guess_submitted room"
    using that assms by (simp add: result_def)
  show "(\<exists>resp. result rooms roomId = Inr resp) \<longleftrightarrow> roles_assigned room \<and> guess_submitted room"
    using assms by (auto simp: result_def)
  show "result rooms' roomId = Inl (InvalidState ''Mantri has not guessed yet'')"
    if "assign_roles rooms shuffled roomId = (rooms', Inr resp)" for rooms' resp
  proof -
    from assign_roles_success_room [of rooms roomId room shuffled rooms' resp, OF assms that]
    show ?thesis by (simp add: result_def)
  qed
  show "\<exists>r. result rooms' roomId = Inr r"
    if "roles_assigned room \<and> submit_guess rooms roomId playerId g = (rooms', Inr resp)"
    for rooms' resp
    using that assms
    by (auto simp: submit_guess_def result_def Let_def
        split: if_splits prod.splits option.splits)
qed

theorem result_needs_roles_and_guess_witness:
  "ex_joined ''r'' = Some room_joined \<and> \<not> roles_assigned room_joined \<and>
   result ex_joined ''r'' = Inl (InvalidState ''Roles not assigned yet'') \<and>
   ex_assigned ''r'' = Some room_assigned \<and>
   roles_assigned room_assigned \<and> \<not> guess_submitted room_assigned \<and>
   result ex_assigned ''r'' = Inl (InvalidState ''Mantri has not guessed yet'') \<and>
   ex_guessed ''r'' = Some room_guessed \<and>
   roles_assigned room_guessed \<and> guess_submitted room_guessed \<and>
   (\<exists>resp. result ex_guessed ''r'' = Inr resp) \<and>
   result (fst (assign_roles ex_guessed ex_shuffled2 ''r'')) ''r'' =
     Inl (InvalidState ''Mantri has not guessed yet'') \<and>
   (\<exists>r. result (fst (submit_guess ex_assigned ''r'' ''uuu'' ''uu'')) ''r'' = Inr r)"
proof -
  have j: "ex_joined ''r'' = Some room_joined" by (simp add: ex_joined_eq)
  have jf: "\<not> roles_assigned room_joined" by (simp add: room_joined_def)
  have a: "ex_assigned ''r'' = Some room_assigned" by (simp add: ex_assigned_eq)
  have af: "roles_assigned room_assigned" "\<not> guess_submitted room_assigned"
    by (simp_all add: room_assigned_def)
  have g: "ex_guessed ''r'' = Some room_guessed" by (simp add: ex_guessed_eq)
  have gf: "roles_assigned room_guessed" "guess_submitted room_guessed"
    by (simp_all add: room_guessed_def)
  from result_needs_roles_and_guess [of ex_joined "''r''" room_joined, OF j] jf
  have r1: "result ex_joined ''r'' = Inl (InvalidState ''Roles not assigned yet'')"
    by blast
  from result_needs_roles_and_guess [of ex_assigned "''r''" room_assigned, OF a] af
  have r2: "result ex_assigned ''r'' = Inl (InvalidState ''Mantri has not guessed yet'')"
    by blast
  from result_needs_roles_and_guess
    [of ex_assigned "''r''" room_assigned _ "''uuu''" "''uu''", OF a] af(1) ex_guess_call
  have "\<exists>r. result [''r'' \<mapsto> room_guessed] ''r'' = Inr r"
    by blast
  with ex_guess_call
  have r5: "\<exists>r. result (fst (submit_guess ex_assigned ''r'' ''uuu'' ''uu'')) ''r'' = Inr r"
    by simp
  from result_needs_roles_and_guess [of ex_guessed "''r''" room_guessed, OF g] gf
  have r3: "\<exists>resp. result ex_guessed ''r'' = Inr resp"
    by blast
  from result_needs_roles_and_guess [of ex_guessed "''r''" room_guessed ex_shuffled2, OF g]
    ex_reassign_call
  have "result [''r'' \<mapsto> room_reassigned] ''r'' =
      Inl (InvalidState ''Mantri has not guessed yet'')"
    by blast
  with ex_reassign_call
  have r4: "result (fst (assign_roles ex_guessed ex_shuffled2 ''r'')) ''r'' =
      Inl (InvalidState ''Mantri has not guessed yet'')"
    by simp
  from j jf r1 a af r2 g gf r3 r4 r5 show ?thesis by simp
qed

subsection \<open>The leaderboard\<close>

lemma sorted_by_score_reverse_desc:
  "sorted_wrt (\<lambda>a b. score a \<ge> score b) (sorted_by_score_reverse ps)"
proof -
  have "sorted (map (\<lambda>p. - score p) (sort_key (\<lambda>p. - score p) ps))"
    by (rule sorted_sort_key)
  then show ?thesis
    by (simp add: sorted_by_score_reverse_def sorted_map)
qed

lemma sorted_by_score_reverse_stable:
  "filter (\<lambda>p. score p = s) (sorted_by_score_reverse ps) = filter (\<lambda>p. score p = s) ps"
  using sort_key_stable [of "\<lambda>p. - score p" "- s" ps]
  by (simp add: sorted_by_score_reverse_def)

lemma sorted_by_score_reverse_mset: "mset (sorted_by_score_reverse ps) = mset ps"
  by (simp add: sorted_by_score_reverse_def)

text \<open>
  C8. In an existing room, \<open>leaderboard\<close> succeeds and lists exactly the active
  players, in descending order of score; the entries with any one score appear in the
  order these players have in the room's list of active players.
\<close>

theorem leaderboard_sorted_stable:
  assumes "rooms roomId = Some room"
  shows "\<exists>resp. leaderboard rooms roomId = Inr resp \<and>
           mset (leaderboard_lr resp) = mset (map leaderboard_entry_of (players room)) \<and>
           sorted_wrt (\<lambda>a b. score_lb a \<ge> score_lb b) (leaderboard_lr resp) \<and>
           (\<forall>s. filter (\<lambda>e. score_lb e = s) (leaderboard_lr resp) =
                 map leaderboard_entry_of (filter (\<lambda>p. score p = s) (players room)))"
proof -
  let ?sp = "sorted_by_score_reverse (players room)"
  let ?resp = "\<lparr>leaderboard_lr = map leaderboard_entry_of ?sp\<rparr>"
  from assms have call: "leaderboard rooms roomId = Inr ?resp"
    by (simp add: leaderboard_def)
  have m: "mset (leaderboard_lr ?resp) = mset (map leaderboard_entry_of (players room))"
    by (simp add: sorted_by_score_reverse_mset)
  have s: "sorted_wrt (\<lambda>a b. score_lb a \<ge> score_lb b) (leaderboard_lr ?resp)"
    using sorted_by_score_reverse_desc [of "players room"]
    by (simp add: sorted_wrt_map leaderboard_entry_of_def)
  have st: "filter (\<lambda>e. score_lb e = s) (leaderboard_lr ?resp) =
        map leaderboard_entry_of (filter (\<lambda>p. score p = s) (players room))" for s
    using sorted_by_score_reverse_stable [of s "players room"]
    by (simp add: filter_map comp_def leaderboard_entry_of_def)
  from call m s st show ?thesis by blast
qed

theorem leaderboard_sorted_stable_witness:
  "ex_guessed2 ''r'' = Some room_guessed2 \<and>
   map score (players room_guessed2) = [1300, 1000, 1300, 1000] \<and>
   leaderboard ex_guessed2 ''r'' =
     Inr \<lparr>leaderboard_lr =
       [\<lparr>id_lb = ''h'', name_lb = ''Asha'', score_lb = 1300\<rparr>,
        \<lparr>id_lb = ''uu'', name_lb = ''Chand'', score_lb = 1300\<rparr>,
        \<lparr>id_lb = ''u'', name_lb = ''Bela'', score_lb = 1000\<rparr>,
        \<lparr>id_lb = ''uuu'', name_lb = ''Dev'', score_lb = 1000\<rparr>]\<rparr> \<and>
   (\<exists>resp. leaderboard ex_guessed2 ''r'' = Inr resp \<and>
      filter (\<lambda>e. score_lb e = 1000) (leaderboard_lr resp) =
        [\<lparr>id_lb = ''u'', name_lb = ''Bela'', score_lb = 1000\<rparr>,
         \<lparr>id_lb = ''uuu'', name_lb = ''Dev'', score_lb = 1000\<rparr>])"
proof -
  have a: "ex_guessed2 ''r'' = Some room_guessed2" by (simp add: ex_guessed2_eq)
  have b: "map score (players room_guessed2) = [1300, 1000, 1300, 1000]"
    by (simp add: room_guessed2_def)
  have c: "leaderboard ex_guessed2 ''r'' =
     Inr \<lparr>leaderboard_lr =
       [\<lparr>id_lb = ''h'', name_lb = ''Asha'', score_lb = 1300\<rparr>,
        \<lparr>id_lb = ''uu'', name_lb = ''Chand'', score_lb = 1300\<rparr>,
        \<lparr>id_lb = ''u'', name_lb = ''Bela'', score_lb = 1000\<rparr>,
        \<lparr>id_lb = ''uuu'', name_lb = ''Dev'', score_lb = 1000\<rparr>]\<rparr>"
    by (simp add: ex_guessed2_eq leaderboard_def sorted_by_score_reverse_def
        room_guessed2_def leaderboard_entry_of_def)
  from leaderboard_sorted_stable [of ex_guessed2 "''r''" room_guessed2, OF a]
  obtain resp where r: "leaderboard ex_guessed2 ''r'' = Inr resp"
    and st: "\<forall>s. filter (\<lambda>e. score_lb e = s) (leaderboard_lr resp) =
               map leaderboard_entry_of (filter (\<lambda>p. score p = s) (players room_guessed2))"
    by blast
  from st have "filter (\<lambda>e. score_lb e = 1000) (leaderboard_lr resp) =
      map leaderboard_entry_of (filter (\<lambda>p. score p = 1000) (players room_guessed2))"
    by blast
  then have "filter (\<lambda>e. score_lb e = 1000) (leaderboard_lr resp) =
        [\<lparr>id_lb = ''u'', name_lb = ''Bela'', score_lb = 1000\<rparr>,
         \<lparr>id_lb = ''uuu'', name_lb = ''Dev'', score_lb = 1000\<rparr>]"
    by (simp add: room_guessed2_def leaderboard_entry_of_def)
  with r have "\<exists>resp. leaderboard ex_guessed2 ''r'' = Inr resp \<and>
      filter (\<lambda>e. score_lb e = 1000) (leaderboard_lr resp) =
        [\<lparr>id_lb = ''u'', name_lb = ''Bela'', score_lb = 1000\<rparr>,
         \<lparr>id_lb = ''uuu'', name_lb = ''Dev'', score_lb = 1000\<rparr>]"
    by (intro exI [of _ resp]) simp
  with a b c show ?thesis by simp
qed

subsection \<open>A player's own role\<close>

text \<open>
  What the handler body returns: 404 for an unknown room, 404 when no active player
  has the given id, and otherwise the id and the \<open>role\<close> field, as it is, of the first
  active player with that id.
\<close>

lemma view_role_loop_find:
  "view_role_loop ps playerId =
     (case find (\<lambda>p. id_player p = playerId) ps of
        None \<Rightarrow> Inl (NotFound ''Player not found'')
      | Some p \<Rightarrow> Inr \<lparr>playerId_rd = id_player p, role_rd = role p\<rparr>)"
  by (induction ps) simp_all

lemma view_role_body_cases:
  "view_role_body rooms roomId playerId =
     (case rooms roomId of
        None \<Rightarrow> Inl (NotFound ''Room not found'')
      | Some room \<Rightarrow>
          (case find (\<lambda>p. id_player p = playerId) (players room) of
             None \<Rightarrow> Inl (NotFound ''Player not found'')
           | Some p \<Rightarrow> Inr \<lparr>playerId_rd = id_player p, role_rd = role p\<rparr>))"
  by (simp add: view_role_body_def view_role_loop_find split: option.splits)

text \<open>
  What the route answers: the two 404s, the role of a player who has one, and the
  response validation error for a player whose role is still \<open>None\<close>.
\<close>

lemma view_role_cases:
  "view_role rooms roomId playerId =
     (case rooms roomId of
        None \<Rightarrow> Inl (NotFound ''Room not found'')
      | Some room \<Rightarrow>
          (case find (\<lambda>p. id_player p = playerId) (players room) of
             None \<Rightarrow> Inl (NotFound ''Player not found'')
           | Some p \<Rightarrow>
               (case role p of
                  None \<Rightarrow> Inl ResponseValidationError
                | Some r \<Rightarrow> Inr \<lparr>playerId_rr = id_player p, role_rr = r\<rparr>)))"
  by (simp add: view_role_def view_role_body_cases RoleResponse_validate_def
      split: option.splits)

text \<open>
  C9. The claim holds of the handler body and fails on the route. A room has just
  been created by Asha, whose player id is \<open>h\<close>, and no roles are assigned. Asked for
  her role, the handler body returns the dictionary with \<open>role\<close> \<open>None\<close>, as it is; the
  route then rejects that dictionary, because \<open>RoleResponse\<close> declares \<open>role: str\<close>, and
  the request fails with the response validation error instead of returning a null
  role. After roles are assigned the same route returns the role, and the two 404s are as
  the claim says.
\<close>

theorem view_role_unassigned_fails:
  "ex_created ''r'' = Some room_created \<and>
   map id_player (players room_created) = [''h''] \<and>
   map role (players room_created) = [None] \<and>
   view_role_body ex_created ''r'' ''h'' = Inr \<lparr>playerId_rd = ''h'', role_rd = None\<rparr> \<and>
   view_role ex_created ''r'' ''h'' = Inl ResponseValidationError \<and>
   view_role ex_assigned ''r'' ''h'' = Inr \<lparr>playerId_rr = ''h'', role_rr = ''Chor''\<rparr> \<and>
   view_role ex_created ''x'' ''h'' = Inl (NotFound ''Room not found'') \<and>
   view_role ex_created ''r'' ''zz'' = Inl (NotFound ''Player not found'')"
  by (simp add: view_role_cases view_role_body_cases ex_created_eq ex_assigned_eq
      room_created_def room_assigned_def)

section \<open>Joining a room\<close>

lemma new_players_names: "map name_player (new_players uuid4 k names) = names"
  by (induction names arbitrary: k) (simp_all add: Player_init_def)

text \<open>
  The loop fills the active list up to four players with the first new players and
  sends all the others to the waitlist.
\<close>

lemma join_loop_fill_then_overflow:
  "join_loop uuid4 k names (room, added, waitlisted) =
     (room\<lparr>players := players room @ take (4 - length (players room)) (new_players uuid4 k names),
            waitlist := waitlist room @ drop (4 - length (players room)) (new_players uuid4 k names)\<rparr>,
      added @ map id_name_of (take (4 - length (players room)) (new_players uuid4 k names)),
      waitlisted @ map id_name_of (drop (4 - length (players room)) (new_players uuid4 k names)))"
proof (induction names arbitrary: k room added waitlisted)
  case Nil
  show ?case by simp
next
  case (Cons name names)
  show ?case
  proof (cases "length (players room) < 4")
    case True
    then have "4 - length (players room) = Suc (4 - Suc (length (players room)))" by simp
    with True show ?thesis by (simp add: Cons.IH Let_def)
  next
    case False
    then have "4 - length (players room) = 0" by simp
    with False show ?thesis by (simp add: Cons.IH Let_def)
  qed
qed

text \<open>
  C4. For an unknown room id \<open>join_multiple_players\<close> fails with NotFound (status
  404) and changes nothing. For an existing room it succeeds: one new player per name,
  in the order of the names; the first \<open>4 - length (players room)\<close> of them are appended
  to the active players and reported as added, all the later ones are appended to the
  waitlist and reported as waitlisted; an active list of at most 4 players stays at most
  4; the players already in the room keep their roles, and \<open>roles_assigned\<close>,
  \<open>mantri_id\<close> and \<open>chor_id\<close> are unchanged.
\<close>

theorem join_multiple_fill_then_overflow:
  "(rooms roomId = None \<longrightarrow>
      join_multiple_players rooms uuid4 roomId names = (rooms, Inl (NotFound ''Room not found''))) \<and>
   (\<forall>room. rooms roomId = Some room \<longrightarrow>
      (\<exists>room' resp.
         join_multiple_players rooms uuid4 roomId names = (rooms(roomId \<mapsto> room'), Inr resp) \<and>
         map name_player (new_players uuid4 0 names) = names \<and>
         players room' =
           players room @ take (4 - length (players room)) (new_players uuid4 0 names) \<and>
         waitlist room' =
           waitlist room @ drop (4 - length (players room)) (new_players uuid4 0 names) \<and>
         added_jm resp =
           map id_name_of (take (4 - length (players room)) (new_players uuid4 0 names)) \<and>
         waitlisted_jm resp =
           map id_name_of (drop (4 - length (players room)) (new_players uuid4 0 names)) \<and>
         (length (players room) \<le> 4 \<longrightarrow> length (players room') \<le> 4) \<and>
         map role (take (length (players room)) (players room')) = map role (players room) \<and>
         roles_assigned room' = roles_assigned room \<and>
         mantri_id room' = mantri_id room \<and> chor_id room' = chor_id room))"
proof (intro conjI allI impI)
  assume "rooms roomId = None"
  then show "join_multiple_players rooms uuid4 roomId names =
      (rooms, Inl (NotFound ''Room not found''))"
    by (simp add: join_multiple_players_def)
next
  fix room assume room: "rooms roomId = Some room"
  let ?new = "new_players uuid4 0 names"
  let ?n = "4 - length (players room)"
  let ?room' = "room\<lparr>players := players room @ take ?n ?new,
                     waitlist := waitlist room @ drop ?n ?new\<rparr>"
  let ?resp = "\<lparr>roomId_jm = id_room ?room', added_jm = map id_name_of (take ?n ?new),
                 waitlisted_jm = map id_name_of (drop ?n ?new),
                 message_jm = ''Players processed successfully''\<rparr>"
  from room have call:
    "join_multiple_players rooms uuid4 roomId names = (rooms(roomId \<mapsto> ?room'), Inr ?resp)"
    by (simp add: join_multiple_players_def join_loop_fill_then_overflow)
  have cap: "length (players room) \<le> 4 \<longrightarrow> length (players ?room') \<le> 4" by auto
  show "\<exists>room' resp.
         join_multiple_players rooms uuid4 roomId names = (rooms(roomId \<mapsto> room'), Inr resp) \<and>
         map name_player (new_players uuid4 0 names) = names \<and>
         players room' =
           players room @ take (4 - length (players room)) (new_players uuid4 0 names) \<and>
         waitlist room' =
           waitlist room @ drop (4 - length (players room)) (new_players uuid4 0 names) \<and>
         added_jm resp =
           map id_name_of (take (4 - length (players room)) (new_players uuid4 0 names)) \<and>
         waitlisted_jm resp =
           map id_name_of (drop (4 - length (players room)) (new_players uuid4 0 names)) \<and>
         (length (players room) \<le> 4 \<longrightarrow> length (players room') \<le> 4) \<and>
         map role (take (length (players room)) (players room')) = map role (players room) \<and>
         roles_assigned room' = roles_assigned room \<and>
         mantri_id room' = mantri_id room \<and> chor_id room' = chor_id room"
    apply (rule exI [of _ ?room'])
    apply (rule exI [of _ ?resp])
    apply (intro conjI)
    apply (rule call)
    apply (rule new_players_names)
    using cap apply simp_all
    done
qed

theorem join_multiple_fill_then_overflow_witness:
  "ex_created ''x'' = None \<and>
   join_multiple_players ex_created ex_uuid4 ''x'' [''Bela'', ''Chand'', ''Dev'', ''Esha'', ''Farid''] =
     (ex_created, Inl (NotFound ''Room not found'')) \<and>
   ex_created ''r'' = Some room_created \<and> map name_player (players room_created) = [''Asha''] \<and>
   (\<exists>room' resp.
      join_multiple_players ex_created ex_uuid4 ''r'' [''Bela'', ''Chand'', ''Dev'', ''Esha'', ''Farid''] =
        (ex_created(''r'' \<mapsto> room'), Inr resp) \<and>
      map name_player (players room') = [''Asha'', ''Bela'', ''Chand'', ''Dev''] \<and>
      map name_player (waitlist room') = [''Esha'', ''Farid''] \<and>
      added_jm resp = [(''u'', ''Bela''), (''uu'', ''Chand''), (''uuu'', ''Dev'')] \<and>
      waitlisted_jm resp = [(''uuuu'', ''Esha''), (''uuuuu'', ''Farid'')] \<and>
      length (players room') = 4 \<and> length (waitlist room') = 2)"
proof -
  let ?names = "[''Bela'', ''Chand'', ''Dev'', ''Esha'', ''Farid'']"
  have n: "ex_created ''x'' = None" by (simp add: ex_created_eq)
  have c: "ex_created ''r'' = Some room_created" by (simp add: ex_created_eq)
  have h: "map name_player (players room_created) = [''Asha'']" by (simp add: room_created_def)
  note inst = join_multiple_fill_then_overflow [of ex_created _ ex_uuid4 ?names]
  from inst [of "''x''"] n
  have nf: "join_multiple_players ex_created ex_uuid4 ''x'' ?names =
      (ex_created, Inl (NotFound ''Room not found''))"
    by blast
  from inst [of "''r''"] c
  obtain room' resp where
    call: "join_multiple_players ex_created ex_uuid4 ''r'' ?names =
             (ex_created(''r'' \<mapsto> room'), Inr resp)"
    and ps: "players room' = players room_created @
               take (4 - length (players room_created)) (new_players ex_uuid4 0 ?names)"
    and wl: "waitlist room' = waitlist room_created @
               drop (4 - length (players room_created)) (new_players ex_uuid4 0 ?names)"
    and ad: "added_jm resp =
               map id_name_of (take (4 - length (players room_created)) (new_players ex_uuid4 0 ?names))"
    and wd: "waitlisted_jm resp =
               map id_name_of (drop (4 - length (players room_created)) (new_players ex_uuid4 0 ?names))"
    by blast
  from ps have ps': "map name_player (players room') = [''Asha'', ''Bela'', ''Chand'', ''Dev'']"
    by (simp add: room_created_def Player_init_def ex_uuid4_def)
  from wl have wl': "map name_player (waitlist room') = [''Esha'', ''Farid'']"
    by (simp add: room_created_def Player_init_def ex_uuid4_def)
  from ad have ad': "added_jm resp = [(''u'', ''Bela''), (''uu'', ''Chand''), (''uuu'', ''Dev'')]"
    by (simp add: room_created_def Player_init_def id_name_of_def ex_uuid4_def)
  from wd have wd': "waitlisted_jm resp = [(''uuuu'', ''Esha''), (''uuuuu'', ''Farid'')]"
    by (simp add: room_created_def Player_init_def id_name_of_def ex_uuid4_def)
  from ps' have l1: "length (players room') = 4"
    using length_map [of name_player "players room'"] by simp
  from wl' have l2: "length (waitlist room') = 2"
    using length_map [of name_player "waitlist room'"] by simp
  from call ps' wl' ad' wd' l1 l2 have
    "\<exists>room' resp.
      join_multiple_players ex_created ex_uuid4 ''r'' ?names =
        (ex_created(''r'' \<mapsto> room'), Inr resp) \<and>
      map name_player (players room') = [''Asha'', ''Bela'', ''Chand'', ''Dev''] \<and>
      map name_player (waitlist room') = [''Esha'', ''Farid''] \<and>
      added_jm resp = [(''u'', ''Bela''), (''uu'', ''Chand''), (''uuu'', ''Dev'')] \<and>
      waitlisted_jm resp = [(''uuuu'', ''Esha''), (''uuuuu'', ''Farid'')] \<and>
      length (players room') = 4 \<and> length (waitlist room') = 2"
    by (intro exI [of _ room'] exI [of _ resp]) simp
  with n nf c h show ?thesis by simp
qed

end
